theory Spec2Isabelle
  imports Main "HOL-Library.Word"
begin

section \<open>Go values\<close>

text \<open>
  The adapter of \<^verbatim>\<open>pkg/kubelet/cri/remote/remote_image.go\<close> is embedded function by
  function. A Go pointer is an option (\<open>None\<close> is \<^verbatim>\<open>nil\<close>), a slice is an optional
  list (\<open>None\<close> is the nil slice, \<open>Some []\<close> an empty non-nil one), an \<^verbatim>\<open>error\<close>
  result is \<open>error option\<close>, and a function with results \<^verbatim>\<open>(T, error)\<close> yields the
  pair, so that the value returned next to an error stays visible. Reading a field
  through a nil pointer panics; a panic is an outcome of its own.
\<close>

type_synonym 'a ptr = "'a option"
type_synonym 'a slice = "'a list option"
type_synonym Duration = "64 word"

datatype panic = NilPointerDereference

datatype 'a outcome = Returned 'a | Panicked panic

subsection \<open>Errors\<close>

text \<open>
  The status codes of \<^verbatim>\<open>google.golang.org/grpc/codes\<close>. An error is either what the
  channel hands back (a gRPC status with its code and text), or one built here with
  \<^verbatim>\<open>errors.New\<close>, or one built with \<^verbatim>\<open>fmt.Errorf\<close> whose format ends in
  \<^verbatim>\<open>%w\<close> and wraps a cause. A formatted text is kept as its fragments: the literal
  parts of the format string and the arguments of the \<^verbatim>\<open>%q\<close> verbs.
\<close>

datatype Code = OK | Canceled | Unknown | InvalidArgument | DeadlineExceeded | NotFound
  | AlreadyExists | PermissionDenied | ResourceExhausted | FailedPrecondition | Aborted
  | OutOfRange | Unimplemented | Internal | Unavailable | DataLoss | Unauthenticated

datatype fragment = Lit string | Quoted string

type_synonym message = "fragment list"

datatype error = StatusError Code string | errors_New message | fmt_Errorf message error

subsection \<open>Cancellation scopes\<close>

datatype Context = Background | WithTimeout Context Duration | WithCancel Context

subsection \<open>Messages of the image service\<close>

text \<open>
  The messages of \<^verbatim>\<open>k8s.io/cri-api/pkg/apis/runtime/v1\<close>, with the fields the adapter
  reads or writes. Field \<open>F\<close> of message \<open>M\<close> is named \<open>M_F\<close>.
\<close>

record ImageSpec =
  ImageSpec_Image :: string
  ImageSpec_Annotations :: "(string \<times> string) list"

record ImageFilter =
  ImageFilter_Image :: "ImageSpec ptr"

record AuthConfig =
  AuthConfig_Username :: string
  AuthConfig_Password :: string
  AuthConfig_Auth :: string
  AuthConfig_ServerAddress :: string
  AuthConfig_IdentityToken :: string
  AuthConfig_RegistryToken :: string

record PodSandboxConfig =
  PodSandboxConfig_Hostname :: string
  PodSandboxConfig_LogDirectory :: string

record Image =
  Image_Id :: string
  Image_RepoTags :: "string list"
  Image_RepoDigests :: "string list"
  Image_Size :: "64 word"
  Image_Username :: string
  Image_Spec :: "ImageSpec ptr"
  Image_Pinned :: bool

record FilesystemUsage =
  FilesystemUsage_Timestamp :: "64 word"
  FilesystemUsage_Mountpoint :: string
  FilesystemUsage_UsedBytes :: "64 word"
  FilesystemUsage_InodesUsed :: "64 word"

record ListImagesRequest =
  ListImagesRequest_Filter :: "ImageFilter ptr"

record ListImagesResponse =
  ListImagesResponse_Images :: "Image ptr slice"

record ImageStatusRequest =
  ImageStatusRequest_Image :: "ImageSpec ptr"
  ImageStatusRequest_Verbose :: bool

record ImageStatusResponse =
  ImageStatusResponse_Image :: "Image ptr"
  ImageStatusResponse_Info :: "(string \<times> string) list"

record PullImageRequest =
  PullImageRequest_Image :: "ImageSpec ptr"
  PullImageRequest_Auth :: "AuthConfig ptr"
  PullImageRequest_SandboxConfig :: "PodSandboxConfig ptr"

record PullImageResponse =
  PullImageResponse_ImageRef :: string

record RemoveImageRequest =
  RemoveImageRequest_Image :: "ImageSpec ptr"

record RemoveImageResponse =
  RemoveImageResponse_unused :: unit

record ImageFsInfoRequest =
  ImageFsInfoRequest_unused :: unit

record ImageFsInfoResponse =
  ImageFsInfoResponse_ImageFilesystems :: "FilesystemUsage ptr slice"

text \<open>
  The generated getter \<^verbatim>\<open>GetImageFilesystems\<close> is nil-safe: on a nil response it
  returns the nil slice.
\<close>

definition GetImageFilesystems :: "ImageFsInfoResponse ptr \<Rightarrow> FilesystemUsage ptr slice" where
  "GetImageFilesystems x =
     (case x of None \<Rightarrow> None | Some resp \<Rightarrow> ImageFsInfoResponse_ImageFilesystems resp)"

subsection \<open>The channel client and the handle\<close>

text \<open>
  \<^verbatim>\<open>runtimeapi.ImageServiceClient\<close> is an interface of five methods, each taking the
  context and the request and returning a response pointer and an error. The backend
  behind it is arbitrary: every field is any function.
\<close>

record ImageServiceClient =
  client_ListImages :: "Context \<Rightarrow> ListImagesRequest \<Rightarrow> ListImagesResponse ptr \<times> error option"
  client_ImageStatus :: "Context \<Rightarrow> ImageStatusRequest \<Rightarrow> ImageStatusResponse ptr \<times> error option"
  client_PullImage :: "Context \<Rightarrow> PullImageRequest \<Rightarrow> PullImageResponse ptr \<times> error option"
  client_RemoveImage :: "Context \<Rightarrow> RemoveImageRequest \<Rightarrow> RemoveImageResponse ptr \<times> error option"
  client_ImageFsInfo :: "Context \<Rightarrow> ImageFsInfoRequest \<Rightarrow> ImageFsInfoResponse ptr \<times> error option"

record remoteImageService =
  timeout :: Duration
  imageClient :: "ImageServiceClient ptr"

subsection \<open>What a call does besides returning\<close>

text \<open>
  The effects of a call are kept as a trace, in order: a cancellation scope is opened,
  a remote call is issued on the channel inside a context with its request, a scope is
  released. Every function takes the trace so far and returns it extended. The
  \<^verbatim>\<open>klog\<close> calls only write to the log and are not traced; the evaluation of their
  arguments is kept, since \<^verbatim>\<open>image.Image\<close> panics on a nil \<^verbatim>\<open>image\<close>.
\<close>

datatype rpc =
    ListImagesRPC ListImagesRequest
  | ImageStatusRPC ImageStatusRequest
  | PullImageRPC PullImageRequest
  | RemoveImageRPC RemoveImageRequest
  | ImageFsInfoRPC ImageFsInfoRequest

datatype event = ScopeOpened Context | Invoked Context rpc | ScopeReleased Context

type_synonym trace = "event list"

text \<open>
  Modelled from the spec: \<^verbatim>\<open>getContextWithTimeout\<close> is a helper of the package that
  is not in the file. Following section 4.2 it derives, from the background context, a
  scope bounded by the given timeout, and returns the context with its cancel function.
\<close>

definition getContextWithTimeout :: "Duration \<Rightarrow> trace \<Rightarrow> Context \<times> trace" where
  "getContextWithTimeout d t =
     (let ctx = WithTimeout Background d in (ctx, t @ [ScopeOpened ctx]))"

text \<open>
  Modelled from the spec: \<^verbatim>\<open>getContextWithCancel\<close> is a helper of the package that
  is not in the file. Following section 4.2 it derives, from the background context, an
  unbounded-but-cancellable scope (no timeout applied), and returns the context with
  its cancel function.
\<close>

definition getContextWithCancel :: "trace \<Rightarrow> Context \<times> trace" where
  "getContextWithCancel t =
     (let ctx = WithCancel Background in (ctx, t @ [ScopeOpened ctx]))"

text \<open>The cancel function of a context releases its scope.\<close>

definition cancel :: "Context \<Rightarrow> trace \<Rightarrow> trace" where
  "cancel ctx t = t @ [ScopeReleased ctx]"

section \<open>The five operations\<close>

text \<open>
  Each operation returns its outcome, the handle as the call leaves it (the receiver
  is a pointer) and the trace. A deferred \<^verbatim>\<open>cancel()\<close> runs when the function
  leaves, by return or by panic. A method called on a nil interface value panics, so
  does a field read through a nil response or a nil \<^verbatim>\<open>image\<close>; the arguments of a
  \<^verbatim>\<open>klog.ErrorS\<close> call are evaluated before anything is returned. The parameters
  \<^verbatim>\<open>filter\<close> and \<^verbatim>\<open>image\<close> are written \<open>filter'\<close> and \<open>image'\<close>, the plain
  names being constants of HOL.
\<close>

definition listImagesV1 ::
  "remoteImageService \<Rightarrow> Context \<Rightarrow> ImageFilter ptr \<Rightarrow> trace
    \<Rightarrow> (Image ptr slice \<times> error option) outcome \<times> remoteImageService \<times> trace" where
  "listImagesV1 r ctx filter' t =
     (case imageClient r of
        None \<Rightarrow> (Panicked NilPointerDereference, r, t)
      | Some c \<Rightarrow>
          let req = \<lparr>ListImagesRequest_Filter = filter'\<rparr>;
              (resp, err) = client_ListImages c ctx req;
              t' = t @ [Invoked ctx (ListImagesRPC req)]
          in (case err of
                Some e \<Rightarrow> (Returned (None, Some e), r, t')
              | None \<Rightarrow>
                  (case resp of
                     None \<Rightarrow> (Panicked NilPointerDereference, r, t')
                   | Some rs \<Rightarrow> (Returned (ListImagesResponse_Images rs, None), r, t'))))"

definition ListImages ::
  "remoteImageService \<Rightarrow> ImageFilter ptr \<Rightarrow> trace
    \<Rightarrow> (Image ptr slice \<times> error option) outcome \<times> remoteImageService \<times> trace" where
  "ListImages r filter' t =
     (let (ctx, t1) = getContextWithTimeout (timeout r) t;
          (res, r', t2) = listImagesV1 r ctx filter' t1
      in (res, r', cancel ctx t2))"

definition imageStatusV1 ::
  "remoteImageService \<Rightarrow> Context \<Rightarrow> ImageSpec ptr \<Rightarrow> bool \<Rightarrow> trace
    \<Rightarrow> (ImageStatusResponse ptr \<times> error option) outcome \<times> remoteImageService \<times> trace" where
  "imageStatusV1 r ctx image' verbose t =
     (case imageClient r of
        None \<Rightarrow> (Panicked NilPointerDereference, r, t)
      | Some c \<Rightarrow>
          let req = \<lparr>ImageStatusRequest_Image = image', ImageStatusRequest_Verbose = verbose\<rparr>;
              (resp, err) = client_ImageStatus c ctx req;
              t' = t @ [Invoked ctx (ImageStatusRPC req)]
          in (case err of
                Some e \<Rightarrow>
                  (case image' of
                     None \<Rightarrow> (Panicked NilPointerDereference, r, t')
                   | Some i \<Rightarrow> (Returned (None, Some e), r, t'))
              | None \<Rightarrow>
                  (case resp of
                     None \<Rightarrow> (Panicked NilPointerDereference, r, t')
                   | Some rs \<Rightarrow>
                       (case ImageStatusResponse_Image rs of
                          Some img \<Rightarrow>
                            if Image_Id img = '''' \<or> Image_Size img = 0 then
                              (case image' of
                                 None \<Rightarrow> (Panicked NilPointerDereference, r, t')
                               | Some i \<Rightarrow>
                                   let errorMessage =
                                         [Lit ''Id or size of image '',
                                          Quoted (ImageSpec_Image i), Lit '' is not set''];
                                       err = errors_New errorMessage
                                   in (Returned (None, Some err), r, t'))
                            else (Returned (Some rs, None), r, t')
                        | None \<Rightarrow> (Returned (Some rs, None), r, t')))))"

definition ImageStatus ::
  "remoteImageService \<Rightarrow> ImageSpec ptr \<Rightarrow> bool \<Rightarrow> trace
    \<Rightarrow> (ImageStatusResponse ptr \<times> error option) outcome \<times> remoteImageService \<times> trace" where
  "ImageStatus r image' verbose t =
     (let (ctx, t1) = getContextWithTimeout (timeout r) t;
          (res, r', t2) = imageStatusV1 r ctx image' verbose t1
      in (res, r', cancel ctx t2))"

definition pullImageV1 ::
  "remoteImageService \<Rightarrow> Context \<Rightarrow> ImageSpec ptr \<Rightarrow> AuthConfig ptr \<Rightarrow> PodSandboxConfig ptr
    \<Rightarrow> trace \<Rightarrow> (string \<times> error option) outcome \<times> remoteImageService \<times> trace" where
  "pullImageV1 r ctx image' auth podSandboxConfig t =
     (case imageClient r of
        None \<Rightarrow> (Panicked NilPointerDereference, r, t)
      | Some c \<Rightarrow>
          let req = \<lparr>PullImageRequest_Image = image', PullImageRequest_Auth = auth,
                     PullImageRequest_SandboxConfig = podSandboxConfig\<rparr>;
              (resp, err) = client_PullImage c ctx req;
              t' = t @ [Invoked ctx (PullImageRPC req)]
          in (case err of
                Some e \<Rightarrow>
                  (case image' of
                     None \<Rightarrow> (Panicked NilPointerDereference, r, t')
                   | Some i \<Rightarrow> (Returned ('''', Some e), r, t'))
              | None \<Rightarrow>
                  (case resp of
                     None \<Rightarrow> (Panicked NilPointerDereference, r, t')
                   | Some rs \<Rightarrow>
                       if PullImageResponse_ImageRef rs = '''' then
                         (case image' of
                            None \<Rightarrow> (Panicked NilPointerDereference, r, t')
                          | Some i \<Rightarrow>
                              let errorMessage =
                                    [Lit ''imageRef of image '',
                                     Quoted (ImageSpec_Image i), Lit '' is not set'']
                              in (Returned ('''', Some (errors_New errorMessage)), r, t'))
                       else (Returned (PullImageResponse_ImageRef rs, None), r, t'))))"

definition PullImage ::
  "remoteImageService \<Rightarrow> ImageSpec ptr \<Rightarrow> AuthConfig ptr \<Rightarrow> PodSandboxConfig ptr
    \<Rightarrow> trace \<Rightarrow> (string \<times> error option) outcome \<times> remoteImageService \<times> trace" where
  "PullImage r image' auth podSandboxConfig t =
     (let (ctx, t1) = getContextWithCancel t;
          (res, r', t2) = pullImageV1 r ctx image' auth podSandboxConfig t1
      in (res, r', cancel ctx t2))"

definition RemoveImage ::
  "remoteImageService \<Rightarrow> ImageSpec ptr \<Rightarrow> trace
    \<Rightarrow> error option outcome \<times> remoteImageService \<times> trace" where
  "RemoveImage r image' t =
     (let (ctx, t1) = getContextWithTimeout (timeout r) t;
          (res, r', t2) =
            (case imageClient r of
               None \<Rightarrow> (Panicked NilPointerDereference, r, t1)
             | Some c \<Rightarrow>
                 let req = \<lparr>RemoveImageRequest_Image = image'\<rparr>;
                     (resp, err) = client_RemoveImage c ctx req;
                     t' = t1 @ [Invoked ctx (RemoveImageRPC req)]
                 in (case err of
                       Some e \<Rightarrow>
                         (case image' of
                            None \<Rightarrow> (Panicked NilPointerDereference, r, t')
                          | Some i \<Rightarrow> (Returned (Some e), r, t'))
                     | None \<Rightarrow> (Returned None, r, t')))
      in (res, r', cancel ctx t2))"

definition imageFsInfoV1 ::
  "remoteImageService \<Rightarrow> Context \<Rightarrow> trace
    \<Rightarrow> (FilesystemUsage ptr slice \<times> error option) outcome \<times> remoteImageService \<times> trace" where
  "imageFsInfoV1 r ctx t =
     (case imageClient r of
        None \<Rightarrow> (Panicked NilPointerDereference, r, t)
      | Some c \<Rightarrow>
          let req = \<lparr>ImageFsInfoRequest_unused = ()\<rparr>;
              (resp, err) = client_ImageFsInfo c ctx req;
              t' = t @ [Invoked ctx (ImageFsInfoRPC req)]
          in (case err of
                Some e \<Rightarrow> (Returned (None, Some e), r, t')
              | None \<Rightarrow> (Returned (GetImageFilesystems resp, None), r, t')))"

definition ImageFsInfo ::
  "remoteImageService \<Rightarrow> trace
    \<Rightarrow> (FilesystemUsage ptr slice \<times> error option) outcome \<times> remoteImageService \<times> trace" where
  "ImageFsInfo r t =
     (let (ctx, t1) = getContextWithCancel t;
          (res, r', t2) = imageFsInfoV1 r ctx t1
      in (res, r', cancel ctx t2))"

section \<open>Connection establishment\<close>

text \<open>
  What the constructor takes from outside the file: address resolution
  (\<^verbatim>\<open>util.GetAddressAndDialer\<close>), dialling (\<^verbatim>\<open>grpc.DialContext\<close>), the generated client
  constructor, \<^verbatim>\<open>status.Code\<close>, the feature gate \<^verbatim>\<open>KubeletTracing\<close> and the package
  constant \<^verbatim>\<open>maxMsgSize\<close>. They are parameters, collected in one record; the dialer
  \<open>'d\<close>, the tracer provider \<open>'t\<close> and the connection \<open>'c\<close> are opaque.
\<close>

datatype 't otelgrpc_Option = WithPropagators | WithTracerProvider 't

datatype ('d, 't) DialOption =
    WithTransportCredentials_insecure
  | WithContextDialer 'd
  | WithDefaultCallOptions_MaxCallRecvMsgSize int
  | WithUnaryInterceptor "'t otelgrpc_Option list"
  | WithStreamInterceptor "'t otelgrpc_Option list"

record ('d, 't, 'c) env =
  GetAddressAndDialer :: "string \<Rightarrow> string \<times> 'd \<times> error option"
  DialContext :: "Context \<Rightarrow> string \<Rightarrow> ('d, 't) DialOption list \<Rightarrow> 'c \<times> error option"
  NewImageServiceClient :: "'c \<Rightarrow> ImageServiceClient"
  status_Code :: "error \<Rightarrow> Code"
  KubeletTracing :: bool
  maxMsgSize :: int

text \<open>The dial options the constructor assembles (lines 58 to 73).\<close>

definition dialOpts :: "('d, 't, 'c) env \<Rightarrow> 'd \<Rightarrow> 't \<Rightarrow> ('d, 't) DialOption list" where
  "dialOpts env dialer tp =
     (let opts = [] @ [WithTransportCredentials_insecure, WithContextDialer dialer,
                       WithDefaultCallOptions_MaxCallRecvMsgSize (maxMsgSize env)]
      in if KubeletTracing env then
           (let tracingOpts = [WithPropagators, WithTracerProvider tp]
            in opts @ [WithUnaryInterceptor tracingOpts, WithStreamInterceptor tracingOpts])
         else opts)"

text \<open>
  \<^verbatim>\<open>validateServiceConnection\<close> stores the channel client in the handle and probes the
  backend with one \<^verbatim>\<open>ImageFsInfo\<close> call. Only the code \<^verbatim>\<open>Unimplemented\<close> makes it fail.
\<close>

definition validateServiceConnection ::
  "('d, 't, 'c) env \<Rightarrow> remoteImageService \<Rightarrow> 'c \<Rightarrow> string \<Rightarrow> trace
    \<Rightarrow> error option \<times> remoteImageService \<times> trace" where
  "validateServiceConnection env r conn endpoint t =
     (let (ctx, t1) = getContextWithTimeout (timeout r) t;
          c = NewImageServiceClient env conn;
          r1 = r\<lparr>imageClient := Some c\<rparr>;
          req = \<lparr>ImageFsInfoRequest_unused = ()\<rparr>;
          (resp, err) = client_ImageFsInfo c ctx req;
          t2 = t1 @ [Invoked ctx (ImageFsInfoRPC req)];
          res =
            (case err of
               None \<Rightarrow> None
             | Some e \<Rightarrow>
                 if status_Code env e = Unimplemented then
                   Some (fmt_Errorf
                           [Lit ''CRI v1 image API is not implemented for endpoint '',
                            Quoted endpoint, Lit '': ''] e)
                 else None)
      in (res, r1, cancel ctx t2))"

text \<open>
  \<^verbatim>\<open>NewRemoteImageService\<close>: resolve the endpoint, dial inside a scope bounded by the
  connection timeout (released when the constructor leaves), build the handle with
  that timeout and validate the connection. The result is the handle, nil on every
  failure, and the error.
\<close>

definition NewRemoteImageService ::
  "('d, 't, 'c) env \<Rightarrow> string \<Rightarrow> Duration \<Rightarrow> 't \<Rightarrow> trace
    \<Rightarrow> (remoteImageService ptr \<times> error option) \<times> trace" where
  "NewRemoteImageService env endpoint connectionTimeout tp t =
     (let (addr, dialer, err) = GetAddressAndDialer env endpoint
      in (case err of
            Some e \<Rightarrow> ((None, Some e), t)
          | None \<Rightarrow>
              let ctx = WithTimeout Background connectionTimeout;
                  t1 = t @ [ScopeOpened ctx];
                  (conn, err) = DialContext env ctx addr (dialOpts env dialer tp)
              in (case err of
                    Some e \<Rightarrow> ((None, Some e), cancel ctx t1)
                  | None \<Rightarrow>
                      let service = \<lparr>timeout = connectionTimeout, imageClient = None\<rparr>;
                          (verr, service', t2) =
                            validateServiceConnection env service conn endpoint t1
                      in (case verr of
                            Some e \<Rightarrow>
                              ((None, Some (fmt_Errorf [Lit ''validate service connection: ''] e)),
                               cancel ctx t2)
                          | None \<Rightarrow> ((Some service', None), cancel ctx t2)))))"

section \<open>Reading a trace, and fake backends\<close>



text \<open>
  A fake channel client in the manner of a test double: it answers each of the five
  calls with a fixed reply, whatever the context and the request.
\<close>

definition fakeClient ::
  "ListImagesResponse ptr \<times> error option \<Rightarrow> ImageStatusResponse ptr \<times> error option
    \<Rightarrow> PullImageResponse ptr \<times> error option \<Rightarrow> RemoveImageResponse ptr \<times> error option
    \<Rightarrow> ImageFsInfoResponse ptr \<times> error option \<Rightarrow> ImageServiceClient" where
  "fakeClient li st pl rm fs =
     \<lparr>client_ListImages = (\<lambda>ctx req. li), client_ImageStatus = (\<lambda>ctx req. st),
      client_PullImage = (\<lambda>ctx req. pl), client_RemoveImage = (\<lambda>ctx req. rm),
      client_ImageFsInfo = (\<lambda>ctx req. fs)\<rparr>"

text \<open>A healthy fake: every call succeeds with an empty response.\<close>

definition healthy :: ImageServiceClient where
  "healthy =
     fakeClient (Some \<lparr>ListImagesResponse_Images = None\<rparr>, None)
       (Some \<lparr>ImageStatusResponse_Image = None, ImageStatusResponse_Info = []\<rparr>, None)
       (Some \<lparr>PullImageResponse_ImageRef = ''sha256:abc''\<rparr>, None)
       (Some \<lparr>RemoveImageResponse_unused = ()\<rparr>, None)
       (Some \<lparr>ImageFsInfoResponse_ImageFilesystems = None\<rparr>, None)"

text \<open>
  A fake environment: resolution and dialling succeed, the client answers the probe
  with the given reply, and \<^verbatim>\<open>status.Code\<close> reads the code of a status error
  (\<^verbatim>\<open>Unknown\<close> for any other error).
\<close>

fun fake_status_Code :: "error \<Rightarrow> Code" where
  "fake_status_Code (StatusError c m) = c"
| "fake_status_Code (errors_New m) = Unknown"
| "fake_status_Code (fmt_Errorf m e) = Unknown"

definition fakeEnv :: "ImageFsInfoResponse ptr \<times> error option \<Rightarrow> (unit, unit, unit) env" where
  "fakeEnv probe =
     \<lparr>GetAddressAndDialer = (\<lambda>endpoint. (''/run/containerd/containerd.sock'', (), None)),
      DialContext = (\<lambda>ctx addr opts. ((), None)),
      NewImageServiceClient =
        (\<lambda>conn. healthy\<lparr>client_ImageFsInfo := (\<lambda>ctx req. probe)\<rparr>),
      status_Code = fake_status_Code,
      KubeletTracing = False,
      maxMsgSize = 16777216\<rparr>"

text \<open>Fakes that differ from the healthy one in the reply to a single call.\<close>

definition listFake :: "ListImagesResponse ptr \<times> error option \<Rightarrow> ImageServiceClient" where
  "listFake li = healthy\<lparr>client_ListImages := (\<lambda>ctx req. li)\<rparr>"

definition statusFake :: "ImageStatusResponse ptr \<times> error option \<Rightarrow> ImageServiceClient" where
  "statusFake st = healthy\<lparr>client_ImageStatus := (\<lambda>ctx req. st)\<rparr>"

definition pullFake :: "PullImageResponse ptr \<times> error option \<Rightarrow> ImageServiceClient" where
  "pullFake pl = healthy\<lparr>client_PullImage := (\<lambda>ctx req. pl)\<rparr>"

definition removeFake :: "RemoveImageResponse ptr \<times> error option \<Rightarrow> ImageServiceClient" where
  "removeFake rm = healthy\<lparr>client_RemoveImage := (\<lambda>ctx req. rm)\<rparr>"

definition fsFake :: "ImageFsInfoResponse ptr \<times> error option \<Rightarrow> ImageServiceClient" where
  "fsFake fs = healthy\<lparr>client_ImageFsInfo := (\<lambda>ctx req. fs)\<rparr>"

text \<open>A handle on a given client with a timeout of two minutes, and sample values.\<close>

definition handle :: "ImageServiceClient \<Rightarrow> remoteImageService" where
  "handle c = \<lparr>timeout = 120000000000, imageClient = Some c\<rparr>"

definition busybox :: ImageSpec where
  "busybox = \<lparr>ImageSpec_Image = ''busybox:latest'', ImageSpec_Annotations = []\<rparr>"

definition record_of :: "string \<Rightarrow> 64 word \<Rightarrow> Image" where
  "record_of ident sz =
     \<lparr>Image_Id = ident, Image_RepoTags = [''busybox:latest''], Image_RepoDigests = [],
      Image_Size = sz, Image_Username = [], Image_Spec = None, Image_Pinned = False\<rparr>"

definition status_of :: "Image ptr \<Rightarrow> ImageStatusResponse" where
  "status_of img = \<lparr>ImageStatusResponse_Image = img, ImageStatusResponse_Info = []\<rparr>"

definition unavailable :: error where
  "unavailable = StatusError Unavailable ''connection refused''"

definition unimplemented :: error where
  "unimplemented = StatusError Unimplemented ''unknown service runtime.v1.ImageService''"

text \<open>A backend that is down: every call fails with the same status error.\<close>

definition broken :: ImageServiceClient where
  "broken =
     fakeClient (None, Some unavailable) (None, Some unavailable) (None, Some unavailable)
       (None, Some unavailable) (None, Some unavailable)"

section \<open>What every call leaves in the trace\<close>

lemmas scope_defs = getContextWithTimeout_def getContextWithCancel_def cancel_def
lemmas fake_defs = fakeClient_def healthy_def listFake_def statusFake_def pullFake_def
  removeFake_def fsFake_def handle_def busybox_def record_of_def status_of_def
  unavailable_def unimplemented_def fakeEnv_def













lemma constructed_handle_has_client:
  "fst (NewRemoteImageService env endpoint connectionTimeout tp t) = (Some r, None)
     \<Longrightarrow> \<exists>c. imageClient r = Some c"
  by (auto simp add: NewRemoteImageService_def validateServiceConnection_def scope_defs Let_def
           split: prod.splits option.splits if_splits)

section \<open>Response validation of ImageStatus\<close>

text \<open>
  Claim C1, for a call that names an image. When the backend answers without error
  and with a record whose identifier is empty or whose size is zero, ImageStatus
  returns a nil response together with an error made here with \<^verbatim>\<open>errors.New\<close>; the
  record is not handed on. The error text is built from \<^verbatim>\<open>image.Image\<close>, so the
  statement needs the image argument to be non-nil.
\<close>

theorem ImageStatus_invalid_record:
  assumes "imageClient r = Some c"
    and "client_ImageStatus c (WithTimeout Background (timeout r))
           \<lparr>ImageStatusRequest_Image = Some i, ImageStatusRequest_Verbose = verbose\<rparr>
         = (Some resp, None)"
    and "ImageStatusResponse_Image resp = Some img"
    and "Image_Id img = '''' \<or> Image_Size img = 0"
  shows "fst (ImageStatus r (Some i) verbose t) =
           Returned (None, Some (errors_New [Lit ''Id or size of image '',
                                   Quoted (ImageSpec_Image i), Lit '' is not set'']))"
  using assms
  by (auto simp add: ImageStatus_def imageStatusV1_def scope_defs Let_def)

theorem ImageStatus_invalid_record_witness:
  "fst (ImageStatus (handle (statusFake (Some (status_of (Some (record_of ''sha256:abc'' 0))), None)))
          (Some busybox) False []) =
     Returned (None, Some (errors_New [Lit ''Id or size of image '',
                             Quoted ''busybox:latest'', Lit '' is not set'']))"
  using ImageStatus_invalid_record
    [of "handle (statusFake (Some (status_of (Some (record_of ''sha256:abc'' 0))), None))"
        "statusFake (Some (status_of (Some (record_of ''sha256:abc'' 0))), None)"
        busybox False "status_of (Some (record_of ''sha256:abc'' 0))" "record_of ''sha256:abc'' 0" "[]"]
  by (simp add: fake_defs)

text \<open>
  With a nil image argument the same backend answer makes the call panic while it
  builds the error text (line 150), so no error is returned at all.
\<close>

theorem ImageStatus_nil_image_counterexample:
  "fst (ImageStatus (handle (statusFake (Some (status_of (Some (record_of ''sha256:abc'' 0))), None)))
          None False []) = Panicked NilPointerDereference"
  by (simp add: fake_defs ImageStatus_def imageStatusV1_def scope_defs Let_def)

text \<open>
  Claim C4. When the backend answers without error and the response carries no record,
  ImageStatus succeeds and returns the response of the backend itself, whose record is
  nil; the image argument may be nil here.
\<close>

theorem ImageStatus_absent_record:
  assumes "imageClient r = Some c"
    and "client_ImageStatus c (WithTimeout Background (timeout r))
           \<lparr>ImageStatusRequest_Image = image', ImageStatusRequest_Verbose = verbose\<rparr>
         = (Some resp, None)"
    and "ImageStatusResponse_Image resp = None"
  shows "fst (ImageStatus r image' verbose t) = Returned (Some resp, None)"
  using assms
  by (simp add: ImageStatus_def imageStatusV1_def scope_defs Let_def)

theorem ImageStatus_absent_record_witness:
  "fst (ImageStatus (handle healthy) (Some busybox) True []) = Returned (Some (status_of None), None)"
  using ImageStatus_absent_record
      [of "handle healthy" healthy "Some busybox" True "status_of None" "[]"]
  by (simp add: fake_defs)

text \<open>
  What is returned in that case is the response, not nil: the result differs from a
  nil response without error.
\<close>

theorem ImageStatus_absent_record_counterexample:
  "fst (ImageStatus (handle (statusFake (Some (status_of None), None))) (Some busybox) False [])
     = Returned (Some (status_of None), None)
   \<and> fst (ImageStatus (handle (statusFake (Some (status_of None), None))) (Some busybox) False [])
     \<noteq> Returned (None, None)"
  by (simp add: fake_defs ImageStatus_def imageStatusV1_def scope_defs Let_def)

section \<open>Connection establishment and the probe\<close>

text \<open>
  Claim C2. Once the endpoint is resolved and dialled, a probe that fails makes the
  constructor fail exactly when \<^verbatim>\<open>status.Code\<close> of the error is \<^verbatim>\<open>Unimplemented\<close>: then
  no handle is returned and the error wraps an error whose text carries the endpoint.
  A probe failing with any other code yields the handle, with the timeout and the
  channel client set, and no error.
\<close>

theorem NewRemoteImageService_probe:
  assumes "GetAddressAndDialer env endpoint = (addr, dialer, None)"
    and "DialContext env (WithTimeout Background connectionTimeout) addr (dialOpts env dialer tp)
           = (conn, None)"
    and "client_ImageFsInfo (NewImageServiceClient env conn)
           (WithTimeout Background connectionTimeout) \<lparr>ImageFsInfoRequest_unused = ()\<rparr>
           = (resp, Some e)"
  shows "fst (NewRemoteImageService env endpoint connectionTimeout tp t) =
           (if status_Code env e = Unimplemented then
              (None, Some (fmt_Errorf [Lit ''validate service connection: '']
                 (fmt_Errorf [Lit ''CRI v1 image API is not implemented for endpoint '',
                              Quoted endpoint, Lit '': ''] e)))
            else
              (Some \<lparr>timeout = connectionTimeout,
                     imageClient = Some (NewImageServiceClient env conn)\<rparr>, None))"
  using assms
  by (simp add: NewRemoteImageService_def validateServiceConnection_def scope_defs Let_def)

theorem NewRemoteImageService_probe_witness:
  "fst (NewRemoteImageService (fakeEnv (None, Some unimplemented)) ''unix:///run/containerd/containerd.sock''
          120000000000 () []) =
     (None, Some (fmt_Errorf [Lit ''validate service connection: '']
        (fmt_Errorf [Lit ''CRI v1 image API is not implemented for endpoint '',
                     Quoted ''unix:///run/containerd/containerd.sock'', Lit '': ''] unimplemented)))
   \<and> fst (NewRemoteImageService (fakeEnv (None, Some unavailable)) ''unix:///run/containerd/containerd.sock''
          120000000000 () []) =
     (Some \<lparr>timeout = 120000000000, imageClient = Some (fsFake (None, Some unavailable))\<rparr>, None)"
  using NewRemoteImageService_probe
      [of "fakeEnv (None, Some unimplemented)" "''unix:///run/containerd/containerd.sock''"
          "''/run/containerd/containerd.sock''" "()" 120000000000 "()" "()" None unimplemented "[]"]
    NewRemoteImageService_probe
      [of "fakeEnv (None, Some unavailable)" "''unix:///run/containerd/containerd.sock''"
          "''/run/containerd/containerd.sock''" "()" 120000000000 "()" "()" None unavailable "[]"]
  by (simp add: fakeEnv_def unimplemented_def unavailable_def fsFake_def)

section \<open>PullImage, RemoveImage and ListImages\<close>

text \<open>
  Claim C3. When the backend answers without error and with a non-empty reference,
  PullImage returns that reference as it is, with no error, whatever the image
  argument, nil included. When the reference is empty and the image argument is
  non-nil, PullImage returns the empty string and an error made here whose text
  carries \<^verbatim>\<open>image.Image\<close>.
\<close>

theorem PullImage_reference:
  assumes "imageClient r = Some c"
    and "client_PullImage c (WithCancel Background)
           \<lparr>PullImageRequest_Image = image', PullImageRequest_Auth = auth,
            PullImageRequest_SandboxConfig = podSandboxConfig\<rparr> = (Some resp, None)"
  shows "(PullImageResponse_ImageRef resp \<noteq> '''' \<longrightarrow>
            fst (PullImage r image' auth podSandboxConfig t) =
              Returned (PullImageResponse_ImageRef resp, None))
       \<and> (PullImageResponse_ImageRef resp = '''' \<longrightarrow> image' = Some i \<longrightarrow>
            fst (PullImage r image' auth podSandboxConfig t) =
              Returned ('''', Some (errors_New [Lit ''imageRef of image '',
                                      Quoted (ImageSpec_Image i), Lit '' is not set''])))"
  using assms
  by (auto simp add: PullImage_def pullImageV1_def scope_defs Let_def
           split: option.splits)

theorem PullImage_reference_witness:
  "fst (PullImage (handle (pullFake (Some \<lparr>PullImageResponse_ImageRef = ''''\<rparr>, None)))
          (Some busybox) None None []) =
     Returned ('''', Some (errors_New [Lit ''imageRef of image '',
                             Quoted ''busybox:latest'', Lit '' is not set'']))
   \<and> fst (PullImage (handle healthy) (Some busybox) None None []) = Returned (''sha256:abc'', None)
   \<and> fst (PullImage (handle healthy) None None None []) = Returned (''sha256:abc'', None)"
  using PullImage_reference
      [of "handle (pullFake (Some \<lparr>PullImageResponse_ImageRef = ''''\<rparr>, None))"
          "pullFake (Some \<lparr>PullImageResponse_ImageRef = ''''\<rparr>, None)" "Some busybox" None None
          "\<lparr>PullImageResponse_ImageRef = ''''\<rparr>" "[]" busybox]
    PullImage_reference
      [of "handle healthy" healthy "Some busybox" None None
          "\<lparr>PullImageResponse_ImageRef = ''sha256:abc''\<rparr>" "[]" busybox]
    PullImage_reference
      [of "handle healthy" healthy None None None
          "\<lparr>PullImageResponse_ImageRef = ''sha256:abc''\<rparr>" "[]" busybox]
  by (simp add: fake_defs)

text \<open>
  With a nil image argument an empty reference makes the call panic (line 180)
  instead of returning an error.
\<close>

theorem PullImage_nil_image_counterexample:
  "fst (PullImage (handle (pullFake (Some \<lparr>PullImageResponse_ImageRef = []\<rparr>, None)))
          None None None []) = Panicked NilPointerDereference"
  by (simp add: fake_defs PullImage_def pullImageV1_def scope_defs Let_def)

text \<open>
  Claim C5. RemoveImage returns no error if and only if the backend call returns no
  error; when the image argument is non-nil the result is the error result of the
  backend, unchanged.
\<close>

theorem RemoveImage_error:
  assumes "imageClient r = Some c"
    and "client_RemoveImage c (WithTimeout Background (timeout r))
           \<lparr>RemoveImageRequest_Image = image'\<rparr> = (resp, err)"
  shows "(fst (RemoveImage r image' t) = Returned None \<longleftrightarrow> err = None)
       \<and> (image' \<noteq> None \<longrightarrow> fst (RemoveImage r image' t) = Returned err)"
  using assms
  by (auto simp add: RemoveImage_def scope_defs Let_def split: option.splits)

theorem RemoveImage_error_witness:
  "fst (RemoveImage (handle (removeFake (None, Some unavailable))) (Some busybox) [])
     = Returned (Some unavailable)
   \<and> fst (RemoveImage (handle healthy) (Some busybox) []) = Returned None"
  using RemoveImage_error
      [of "handle (removeFake (None, Some unavailable))" "removeFake (None, Some unavailable)"
          "Some busybox" None "Some unavailable" "[]"]
    RemoveImage_error
      [of "handle healthy" healthy "Some busybox" "Some \<lparr>RemoveImageResponse_unused = ()\<rparr>" None "[]"]
  by (simp add: fake_defs)

text \<open>
  With a nil image argument a failing backend call makes RemoveImage panic
  (line 196): the error of the backend is not returned.
\<close>

theorem RemoveImage_nil_image_counterexample:
  "fst (RemoveImage (handle (removeFake (None, Some unavailable))) None [])
     = Panicked NilPointerDereference"
  by (simp add: fake_defs RemoveImage_def scope_defs Let_def)

text \<open>
  Claim C6. For every filter, nil included, when the backend call succeeds ListImages
  returns the slice of the response as it is: the same records in the same order,
  with no error.
\<close>

theorem ListImages_passthrough:
  assumes "imageClient r = Some c"
    and "client_ListImages c (WithTimeout Background (timeout r))
           \<lparr>ListImagesRequest_Filter = filter'\<rparr> = (Some resp, None)"
  shows "fst (ListImages r filter' t) = Returned (ListImagesResponse_Images resp, None)"
  using assms
  by (simp add: ListImages_def listImagesV1_def scope_defs Let_def)

theorem ListImages_passthrough_witness:
  "fst (ListImages
          (handle (listFake (Some \<lparr>ListImagesResponse_Images =
             Some [Some (record_of ''sha256:b'' 2), None, Some (record_of ''sha256:a'' 1)]\<rparr>, None)))
          None []) =
     Returned (Some [Some (record_of ''sha256:b'' 2), None, Some (record_of ''sha256:a'' 1)], None)"
  using ListImages_passthrough
      [of "handle (listFake (Some \<lparr>ListImagesResponse_Images =
             Some [Some (record_of ''sha256:b'' 2), None, Some (record_of ''sha256:a'' 1)]\<rparr>, None))"
          "listFake (Some \<lparr>ListImagesResponse_Images =
             Some [Some (record_of ''sha256:b'' 2), None, Some (record_of ''sha256:a'' 1)]\<rparr>, None)"
          None
          "\<lparr>ListImagesResponse_Images =
             Some [Some (record_of ''sha256:b'' 2), None, Some (record_of ''sha256:a'' 1)]\<rparr>" "[]"]
  by (simp add: fakeClient_def healthy_def listFake_def handle_def)

section \<open>Scopes, the handle, single attempts and zero values\<close>



text \<open>
  Claim C8. A handle returned by a successful construction has the connection timeout
  as its timeout, and each of the five operations leaves the handle as it was: neither
  the timeout nor the channel client changes.
\<close>

theorem handle_is_fixed:
  "(fst (NewRemoteImageService env endpoint connectionTimeout tp t0) = (Some h, None)
      \<longrightarrow> timeout h = connectionTimeout)
   \<and> fst (snd (ListImages r filter' t)) = r
   \<and> fst (snd (ImageStatus r image' verbose t)) = r
   \<and> fst (snd (PullImage r image' auth podSandboxConfig t)) = r
   \<and> fst (snd (RemoveImage r image' t)) = r
   \<and> fst (snd (ImageFsInfo r t)) = r"
proof -
  have construct: "fst (NewRemoteImageService env endpoint connectionTimeout tp t0) = (Some h, None)
      \<longrightarrow> timeout h = connectionTimeout"
    by (auto simp add: NewRemoteImageService_def validateServiceConnection_def scope_defs Let_def
             split: prod.splits option.splits if_splits)
  have list: "fst (snd (ListImages r filter' t)) = r"
    by (simp add: ListImages_def listImagesV1_def scope_defs Let_def
          split: option.splits prod.splits)
  have status: "fst (snd (ImageStatus r image' verbose t)) = r"
    by (simp add: ImageStatus_def imageStatusV1_def scope_defs Let_def
          split: option.splits prod.splits)
  have pull: "fst (snd (PullImage r image' auth podSandboxConfig t)) = r"
    by (simp add: PullImage_def pullImageV1_def scope_defs Let_def
          split: option.splits prod.splits)
  have remove: "fst (snd (RemoveImage r image' t)) = r"
    by (simp add: RemoveImage_def scope_defs Let_def split: option.splits prod.splits)
  have fs: "fst (snd (ImageFsInfo r t)) = r"
    by (simp add: ImageFsInfo_def imageFsInfoV1_def scope_defs Let_def
          split: option.splits prod.splits)
  from construct list status pull remove fs show ?thesis by blast
qed

theorem handle_is_fixed_witness:
  "fst (NewRemoteImageService (fakeEnv (None, Some unavailable)) ''unix:///run/containerd/containerd.sock''
          120000000000 () []) = (Some (handle (fsFake (None, Some unavailable))), None)
   \<and> timeout (handle (fsFake (None, Some unavailable))) = 120000000000
   \<and> fst (snd (ImageFsInfo (handle (fsFake (None, Some unavailable))) [])) =
       handle (fsFake (None, Some unavailable))"
  using handle_is_fixed
      [of "fakeEnv (None, Some unavailable)" "''unix:///run/containerd/containerd.sock''"
          120000000000 "()" "[]" "handle (fsFake (None, Some unavailable))"
          "handle (fsFake (None, Some unavailable))" None "[]" None False None None]
  by (simp add: NewRemoteImageService_def validateServiceConnection_def scope_defs Let_def
        fakeEnv_def fsFake_def handle_def unavailable_def)




text \<open>
  Claim C10. Whenever ListImages, ImageFsInfo, ImageStatus or PullImage returns an error,
  be it the error of the backend or one made by the validation of the response, the
  value returned with it is the zero value: the nil slice, the nil response, the
  empty string.
\<close>

theorem error_means_zero_value:
  "(fst (ListImages r filter' t) = Returned (images, Some e) \<longrightarrow> images = None)
   \<and> (fst (ImageFsInfo r t) = Returned (usage, Some e) \<longrightarrow> usage = None)
   \<and> (fst (ImageStatus r image' verbose t) = Returned (resp, Some e) \<longrightarrow> resp = None)
   \<and> (fst (PullImage r image' auth podSandboxConfig t) = Returned (imageRef, Some e)
        \<longrightarrow> imageRef = [])"
proof (intro conjI impI)
  assume "fst (ListImages r filter' t) = Returned (images, Some e)"
  then show "images = None"
    by (auto simp add: ListImages_def listImagesV1_def scope_defs Let_def
             split: option.splits prod.splits)
next
  assume "fst (ImageFsInfo r t) = Returned (usage, Some e)"
  then show "usage = None"
    by (auto simp add: ImageFsInfo_def imageFsInfoV1_def scope_defs Let_def
             split: option.splits prod.splits)
next
  assume "fst (ImageStatus r image' verbose t) = Returned (resp, Some e)"
  then show "resp = None"
    by (auto simp add: ImageStatus_def imageStatusV1_def scope_defs Let_def
             split: option.splits prod.splits if_splits)
next
  assume "fst (PullImage r image' auth podSandboxConfig t) = Returned (imageRef, Some e)"
  then show "imageRef = []"
    by (auto simp add: PullImage_def pullImageV1_def scope_defs Let_def
             split: option.splits prod.splits if_splits)
qed

theorem error_means_zero_value_witness:
  "fst (ListImages (handle broken) None []) = Returned (None, Some unavailable)
   \<and> fst (ImageFsInfo (handle broken) []) = Returned (None, Some unavailable)
   \<and> fst (ImageStatus (handle (statusFake (Some (status_of (Some (record_of '''' 5))), None)))
          (Some busybox) False []) =
       Returned (None, Some (errors_New [Lit ''Id or size of image '',
                               Quoted ''busybox:latest'', Lit '' is not set'']))
   \<and> fst (PullImage (handle broken) (Some busybox) None None []) = Returned ('''', Some unavailable)"
  using error_means_zero_value
      [of "handle broken" None "[]" None unavailable None "Some busybox" False None None None "''''"]
    error_means_zero_value
      [of "handle (statusFake (Some (status_of (Some (record_of '''' 5))), None))" None "[]" None
          "errors_New [Lit ''Id or size of image '', Quoted ''busybox:latest'', Lit '' is not set'']"
          None "Some busybox" False None None None "''''"]
  by (simp add: fake_defs broken_def ListImages_def listImagesV1_def ImageFsInfo_def
        imageFsInfoV1_def ImageStatus_def imageStatusV1_def PullImage_def pullImageV1_def
        scope_defs Let_def)

end
